theory Spec2Isabelle
  imports Main
begin

section \<open>JavaScript values, failures and the store\<close>

text \<open>
  The plugin of \<^verbatim>\<open>index.js\<close> handles three kinds of JavaScript value: strings, arrays
  (the argument list of the subprocess, which may hold an array as an element) and plain
  objects (the result of a load). Arrays of strings that outlive one call (the caller's
  list of macro names, the flag list the closure keeps) are objects with an identity: they
  live in a store, by address, so that a write through one reference is seen through
  every other reference to the same array and through no other.
\<close>

type_synonym addr = nat

datatype jsval = JStr string | JArr "jsval list"

type_synonym jsobject = "(string \<times> jsval) list"

text \<open>
  A thrown exception or a rejected promise is a value: \<open>TypeError\<close> is what reading a
  property of \<open>null\<close> throws; the others are ways the promise of \<^verbatim>\<open>execFile\<close> is
  rejected: the executable could not be started (with the errno name, such as ENOENT);
  the child ended with a status other than zero (with what it wrote to its two streams);
  the child was ended by a signal (with its name); the child wrote more to one of its
  streams than \<^verbatim>\<open>execFile\<close> buffers (with what was captured of the two streams).
  The last one does not depend on the exit status: line 13 passes no options, so the
  default limit applies to the error stream as well as to the standard output.
\<close>

datatype js_error =
    TypeError
  | SpawnFailed string
  | ExitedNonZero int string string
  | KilledBySignal string
  | MaxBufferExceeded string string

text \<open>
  The world: the arrays in the store (\<open>cells\<close>, by address), the next unused address
  (\<open>brk\<close>), and the calls of \<^verbatim>\<open>execFile\<close> made so far, each with the file and the
  argument list it was given (\<open>spawned\<close>). Calling \<^verbatim>\<open>execFile\<close> is the only input
  or output the program performs.
\<close>

record world =
  cells :: "addr \<Rightarrow> string list"
  brk :: addr
  spawned :: "(string \<times> jsval list) list"

definition new_array :: "string list \<Rightarrow> world \<Rightarrow> addr \<times> world" where
  "new_array xs w = (brk w, w\<lparr>cells := (cells w)(brk w := xs), brk := Suc (brk w)\<rparr>)"

text \<open>\<^verbatim>\<open>Array.prototype.map\<close>: a new array, the argument array untouched.\<close>

definition array_map :: "(string \<Rightarrow> string) \<Rightarrow> addr \<Rightarrow> world \<Rightarrow> addr \<times> world" where
  "array_map f a w = new_array (map f (cells w a)) w"

section \<open>The subprocess interface\<close>

text \<open>
  \<^verbatim>\<open>const execFile = promisify(child_process.execFile)\<close> is the environment: given
  the file and the argument list it settles a promise, rejected with an error (\<open>Inl\<close>) or
  resolved with the two captured streams (\<open>Inr\<close>). The program does not say which; the
  model takes the settlement as a parameter. \<^verbatim>\<open>execFile\<close> reads the argument list
  when it is called and writes to none of the arrays in it, so the settlement is all it
  gives back.
\<close>

record exec_output =
  stdout :: string
  stderr :: string

type_synonym exec = "string \<Rightarrow> jsval list \<Rightarrow> js_error + exec_output"

section \<open>The host's registration object\<close>

text \<open>
  The filter of a registration is a regular expression. \<open>Dot\<close> is \<^verbatim>\<open>.\<close>: any
  character but a line terminator. Strings are sequences of 8-bit characters here, so of
  JavaScript's four line terminators only LF and CR occur as one character; U+2028 and
  U+2029 do not. \<open>regex_test\<close> is the unanchored search of
  \<^verbatim>\<open>RegExp.prototype.test\<close>: some substring is matched.
\<close>

datatype regex =
    Never
  | Eps
  | Dot
  | Lit char
  | Seq regex regex
  | Alt regex regex
  | Star regex

definition line_terminator :: "char \<Rightarrow> bool" where
  "line_terminator c = (c = CHR 0x0A \<or> c = CHR 0x0D)"

fun nullable :: "regex \<Rightarrow> bool" where
  "nullable Never = False"
| "nullable Eps = True"
| "nullable Dot = False"
| "nullable (Lit c) = False"
| "nullable (Seq r s) = (nullable r \<and> nullable s)"
| "nullable (Alt r s) = (nullable r \<or> nullable s)"
| "nullable (Star r) = True"

fun deriv :: "char \<Rightarrow> regex \<Rightarrow> regex" where
  "deriv c Never = Never"
| "deriv c Eps = Never"
| "deriv c Dot = (if line_terminator c then Never else Eps)"
| "deriv c (Lit d) = (if c = d then Eps else Never)"
| "deriv c (Seq r s) =
     (if nullable r then Alt (Seq (deriv c r) s) (deriv c s) else Seq (deriv c r) s)"
| "deriv c (Alt r s) = Alt (deriv c r) (deriv c s)"
| "deriv c (Star r) = Seq (deriv c r) (Star r)"

fun match_prefix :: "regex \<Rightarrow> string \<Rightarrow> bool" where
  "match_prefix r [] = nullable r"
| "match_prefix r (c # cs) = (nullable r \<or> match_prefix (deriv c r) cs)"

fun regex_test :: "regex \<Rightarrow> string \<Rightarrow> bool" where
  "regex_test r [] = nullable r"
| "regex_test r (c # cs) = (match_prefix r (c # cs) \<or> regex_test r cs)"

record onload_args =
  path :: string

type_synonym onload_callback =
  "onload_args \<Rightarrow> exec \<Rightarrow> world \<Rightarrow> (js_error + jsobject) \<times> world"

record build =
  onLoad_handlers :: "(regex \<times> onload_callback) list"

text \<open>\<^verbatim>\<open>build.onLoad({filter}, callback)\<close>: the host records the registration.\<close>

definition build_onLoad :: "regex \<Rightarrow> onload_callback \<Rightarrow> build \<Rightarrow> build" where
  "build_onLoad flt cb bld = bld\<lparr>onLoad_handlers := onLoad_handlers bld @ [(flt, cb)]\<rparr>"

definition empty_build :: build where
  "empty_build = \<lparr>onLoad_handlers = []\<rparr>"

section \<open>The plugin\<close>

text \<open>Line 7, the arrow function of the map: \<^verbatim>\<open>`-D ${name} `\<close>.\<close>

definition predefine_flag :: "string \<Rightarrow> string" where
  "predefine_flag nm = ''-D '' @ nm @ '' ''"

text \<open>
  Line 12: \<^verbatim>\<open>predefineNamesOptions.length ? ['-P', predefineNamesOptions, args.path]
  : ['-P', args.path]\<close>. The flag array is one element of the three-element literal.
\<close>

definition options :: "string list \<Rightarrow> string \<Rightarrow> jsval list" where
  "options predefineNamesOptions pth =
     (if length predefineNamesOptions \<noteq> 0
      then [JStr ''-P'', JArr (map JStr predefineNamesOptions), JStr pth]
      else [JStr ''-P'', JStr pth])"

text \<open>
  Lines 11 to 18, the asynchronous callback, by the settlement of the promise it returns.
  \<open>predefineNamesOptions\<close> is the address of the flag array the closure captured; it is
  read when the load happens. A rejected \<^verbatim>\<open>await\<close> rejects the callback's promise
  with the same error (there is no \<^verbatim>\<open>try\<close>); otherwise only \<^verbatim>\<open>stdout\<close> is
  taken from the resolved value.
\<close>

definition onLoad_callback :: "addr \<Rightarrow> onload_callback" where
  "onLoad_callback predefineNamesOptions args execFile w =
     (let opts = options (cells w predefineNamesOptions) (path args);
          w' = w\<lparr>spawned := spawned w @ [(''cpp'', opts)]\<rparr>
      in case execFile ''cpp'' opts of
           Inl err \<Rightarrow> (Inl err, w')
         | Inr out \<Rightarrow> (Inr [(''contents'', JStr (stdout out)), (''loader'', JStr ''js'')], w'))"

text \<open>Lines 10 to 19, \<^verbatim>\<open>setup(build)\<close>, with the filter \<^verbatim>\<open>/.*/\<close>.\<close>

definition setup_routine :: "addr \<Rightarrow> build \<Rightarrow> build" where
  "setup_routine predefineNamesOptions bld =
     build_onLoad (Star Dot) (onLoad_callback predefineNamesOptions) bld"

record plugin =
  plugin_name :: string
  plugin_setup :: "build \<Rightarrow> build"

text \<open>
  Lines 6 to 9 and 20. The argument is \<^verbatim>\<open>undefined\<close> (also when omitted), \<open>null\<close>
  or a reference to an array of strings. The default \<^verbatim>\<open>[]\<close> is evaluated only for
  \<^verbatim>\<open>undefined\<close>; \<^verbatim>\<open>null.map\<close> throws.
\<close>

datatype jsarg = Undefined | Null | ArrayRef addr

definition cppPlugin_body :: "addr \<Rightarrow> world \<Rightarrow> js_error + plugin \<times> world" where
  "cppPlugin_body predefineNames w =
     (let (predefineNamesOptions, w') = array_map predefine_flag predefineNames w
      in Inr (\<lparr>plugin_name = ''cppPlugin'', plugin_setup = setup_routine predefineNamesOptions\<rparr>, w'))"

fun cppPlugin :: "jsarg \<Rightarrow> world \<Rightarrow> js_error + plugin \<times> world" where
  "cppPlugin Undefined w = (let (predefineNames, w') = new_array [] w in cppPlugin_body predefineNames w')"
| "cppPlugin Null w = Inl TypeError"
| "cppPlugin (ArrayRef predefineNames) w = cppPlugin_body predefineNames w"

section \<open>Using a plugin: the callback it registers, and a run of events\<close>

definition registered_callback :: "plugin \<Rightarrow> onload_callback option" where
  "registered_callback p =
     (case onLoad_handlers (plugin_setup p empty_build) of
        [(flt, cb)] \<Rightarrow> Some cb
      | _ \<Rightarrow> None)"

text \<open>
  What happens after construction: the host delivers load events, and the caller may
  write to an array it holds (any write, by the array's new contents). Each load gets
  the settlement the environment has for it: \<open>env 0\<close> for the first load, \<open>env 1\<close> for
  the second, and so on. A load is one step of the run: the callback builds the argument
  list before its only suspension point and uses nothing but the resolved value after it.
\<close>

datatype event = Load string | CallerWrites "string list"

fun run_events ::
  "onload_callback \<Rightarrow> addr \<Rightarrow> (nat \<Rightarrow> exec) \<Rightarrow> event list \<Rightarrow> world \<Rightarrow> (js_error + jsobject) list \<times> world"
where
  "run_events cb a env [] w = ([], w)"
| "run_events cb a env (Load pth # evs) w =
     (let (r, w1) = cb \<lparr>path = pth\<rparr> (env 0) w;
          (rs, w2) = run_events cb a (\<lambda>n. env (Suc n)) evs w1
      in (r # rs, w2))"
| "run_events cb a env (CallerWrites xs # evs) w =
     run_events cb a env evs (w\<lparr>cells := (cells w)(a := xs)\<rparr>)"

fun loaded_paths :: "event list \<Rightarrow> string list" where
  "loaded_paths [] = []"
| "loaded_paths (Load pth # evs) = pth # loaded_paths evs"
| "loaded_paths (CallerWrites xs # evs) = loaded_paths evs"

text \<open>
  ECMAScript's ToString, which turns a value that is not a string into one: an array
  becomes its elements' strings joined by commas.
\<close>

fun join_comma :: "string list \<Rightarrow> string" where
  "join_comma [] = []"
| "join_comma [s] = s"
| "join_comma (s # t # ss) = s @ '','' @ join_comma (t # ss)"

fun js_to_string :: "jsval \<Rightarrow> string" where
  "js_to_string (JStr s) = s"
| "js_to_string (JArr xs) = join_comma (map js_to_string xs)"

section \<open>A configuration to run\<close>

text \<open>
  The macro-name list the factory is given: none for \<^verbatim>\<open>undefined\<close>, the contents of
  the array otherwise (\<open>null\<close> throws before any list is read).
\<close>

fun configured_names :: "jsarg \<Rightarrow> world \<Rightarrow> string list" where
  "configured_names Undefined w = []"
| "configured_names Null w = []"
| "configured_names (ArrayRef a) w = cells w a"

text \<open>
  A caller in the style of \<^verbatim>\<open>test.esbuild.config.js\<close>, with two names:
  \<^verbatim>\<open>cppPlugin(['DEBUG', 'TRACE'])\<close>. The caller's array is at address 0;
  construction puts the flag array at address 1.
\<close>

definition test_world :: world where
  "test_world = \<lparr>cells = (\<lambda>a. [])(0 := [''DEBUG'', ''TRACE'']), brk = 1, spawned = []\<rparr>"

definition test_plugin :: plugin where
  "test_plugin = \<lparr>plugin_name = ''cppPlugin'', plugin_setup = setup_routine 1\<rparr>"

definition test_world1 :: world where
  "test_world1 = test_world\<lparr>cells := (cells test_world)(1 := [''-D DEBUG '', ''-D TRACE '']), brk := 2\<rparr>"

text \<open>A caller with an empty list, \<^verbatim>\<open>cppPlugin([])\<close>, the array at address 0.\<close>

definition empty_list_world :: world where
  "empty_list_world = \<lparr>cells = (\<lambda>a. []), brk = 1, spawned = []\<rparr>"

text \<open>
  Four runs of the subprocess, by the settlement of the promise: one resolved, with
  nothing on the error stream; one resolved, with a warning on the error stream; one
  rejected because the executable is not found; and one rejected because the error
  stream outgrew the buffer, whatever the exit status of the child.
\<close>

definition quiet_run :: exec where
  "quiet_run file as = Inr \<lparr>stdout = ''x;'', stderr = []\<rparr>"

definition warning_run :: exec where
  "warning_run file as = Inr \<lparr>stdout = ''x;'', stderr = ''f.js:1:2: warning: w''\<rparr>"

definition missing_run :: exec where
  "missing_run file as = Inl (SpawnFailed ''ENOENT'')"

definition flooded_run :: exec where
  "flooded_run file as = Inl (MaxBufferExceeded ''x;'' ''f.js:1:2: warning: w'')"

section \<open>Construction and setup\<close>

lemma cppPlugin_ArrayRef:
  "cppPlugin (ArrayRef a) w =
     Inr (\<lparr>plugin_name = ''cppPlugin'', plugin_setup = setup_routine (brk w)\<rparr>,
          w\<lparr>cells := (cells w)(brk w := map predefine_flag (cells w a)), brk := Suc (brk w)\<rparr>)"
  by (simp add: cppPlugin_body_def array_map_def new_array_def)

lemma cppPlugin_Undefined:
  "cppPlugin Undefined w =
     Inr (\<lparr>plugin_name = ''cppPlugin'', plugin_setup = setup_routine (Suc (brk w))\<rparr>,
          w\<lparr>cells := (cells w)(brk w := [], Suc (brk w) := []), brk := Suc (Suc (brk w))\<rparr>)"
  by (simp add: cppPlugin_body_def array_map_def new_array_def)

lemma registered_callback_setup_routine:
  "registered_callback \<lparr>plugin_name = n, plugin_setup = setup_routine b\<rparr> = Some (onLoad_callback b)"
  by (simp add: registered_callback_def setup_routine_def build_onLoad_def empty_build_def)

text \<open>
  Whatever the factory returns, its setup routine is \<open>setup_routine b\<close> for an address
  \<open>b\<close> that was unused before the call and now holds the flags of the configured names.
\<close>

lemma cppPlugin_Inr:
  assumes "cppPlugin arg w = Inr (p, w1)"
  shows "\<exists>b. brk w \<le> b \<and> p = \<lparr>plugin_name = ''cppPlugin'', plugin_setup = setup_routine b\<rparr> \<and>
             cells w1 b = map predefine_flag (configured_names arg w) \<and> spawned w1 = spawned w"
proof (cases arg)
  case Undefined
  with assms show ?thesis
    unfolding Undefined cppPlugin_Undefined by (intro exI [of _ "Suc (brk w)"]) auto
next
  case Null
  with assms show ?thesis by simp
next
  case (ArrayRef a)
  with assms show ?thesis
    unfolding ArrayRef cppPlugin_ArrayRef by (intro exI [of _ "brk w"]) auto
qed

lemma test_construction:
  "cppPlugin (ArrayRef 0) test_world = Inr (test_plugin, test_world1)"
  unfolding cppPlugin_ArrayRef
  by (simp add: test_world_def test_plugin_def test_world1_def predefine_flag_def numeral_2_eq_2)

lemma test_callback: "registered_callback test_plugin = Some (onLoad_callback 1)"
  unfolding test_plugin_def by (rule registered_callback_setup_routine)

section \<open>One load\<close>

lemma options_length: "length (options flags pth) = (if flags = [] then 2 else 3)"
  by (simp add: options_def)

lemma onLoad_callback_spawned:
  "spawned (snd (onLoad_callback b args ex w)) = spawned w @ [(''cpp'', options (cells w b) (path args))]"
  by (simp add: onLoad_callback_def Let_def split: sum.split)

lemma onLoad_callback_cells:
  "cells (snd (onLoad_callback b args ex w)) = cells w"
  by (simp add: onLoad_callback_def Let_def split: sum.split)

lemma onLoad_callback_result:
  "fst (onLoad_callback b args ex w) =
     (case ex ''cpp'' (options (cells w b) (path args)) of
        Inl err \<Rightarrow> Inl err
      | Inr out \<Rightarrow> Inr [(''contents'', JStr (stdout out)), (''loader'', JStr ''js'')])"
  by (simp add: onLoad_callback_def Let_def split: sum.split)

lemma regex_test_Star: "regex_test (Star r) s"
  by (cases s) simp_all

text \<open>
  A child that floods its error stream: the promise is rejected, and so is the load,
  with the same error, whatever the child's exit status was.
\<close>

lemma flooded_run_fails:
  "fst (onLoad_callback b args flooded_run w)
     = Inl (MaxBufferExceeded ''x;'' ''f.js:1:2: warning: w'')"
  by (simp add: onLoad_callback_result flooded_run_def)

section \<open>A run of events\<close>

text \<open>
  As long as the caller writes to an array other than the closure's flag array, every
  load of a run hands the subprocess the options built from the flags the array held at
  the start.
\<close>

lemma run_events_log:
  "a \<noteq> b \<Longrightarrow>
   spawned (snd (run_events (onLoad_callback b) a env evs w)) =
     spawned w @ map (\<lambda>pth. (''cpp'', options (cells w b) pth)) (loaded_paths evs)"
proof (induction evs arbitrary: w env)
  case Nil
  then show ?case by simp
next
  case (Cons ev evs)
  show ?case
  proof (cases ev)
    case (Load pth)
    then show ?thesis
      using Cons.IH [OF Cons.prems, of "\<lambda>n. env (Suc n)" "snd (onLoad_callback b \<lparr>path = pth\<rparr> (env 0) w)"]
      by (simp add: split_beta onLoad_callback_cells onLoad_callback_spawned)
  next
    case (CallerWrites xs)
    then show ?thesis
      using Cons.IH [OF Cons.prems, of env "w\<lparr>cells := (cells w)(a := xs)\<rparr>"] Cons.prems
      by simp
  qed
qed

text \<open>Two closures whose flag arrays hold the same flags answer every run alike.\<close>

lemma run_events_results_agree:
  "a1 \<noteq> b1 \<Longrightarrow> a2 \<noteq> b2 \<Longrightarrow> cells w1 b1 = cells w2 b2 \<Longrightarrow>
   fst (run_events (onLoad_callback b1) a1 env evs w1) =
   fst (run_events (onLoad_callback b2) a2 env evs w2)"
proof (induction evs arbitrary: w1 w2 env)
  case Nil
  then show ?case by simp
next
  case (Cons ev evs)
  show ?case
  proof (cases ev)
    case (Load pth)
    let ?v1 = "snd (onLoad_callback b1 \<lparr>path = pth\<rparr> (env 0) w1)"
    let ?v2 = "snd (onLoad_callback b2 \<lparr>path = pth\<rparr> (env 0) w2)"
    have "cells ?v1 b1 = cells ?v2 b2"
      using Cons.prems(3) by (simp add: onLoad_callback_cells)
    from Cons.IH [OF Cons.prems(1,2) this, of "\<lambda>n. env (Suc n)"] Load Cons.prems(3)
    show ?thesis
      by (simp add: split_beta onLoad_callback_result)
  next
    case (CallerWrites xs)
    have "cells (w1\<lparr>cells := (cells w1)(a1 := xs)\<rparr>) b1 = cells (w2\<lparr>cells := (cells w2)(a2 := xs)\<rparr>) b2"
      using Cons.prems by simp
    from Cons.IH [OF Cons.prems(1,2) this, of env] CallerWrites
    show ?thesis by simp
  qed
qed

section \<open>The argument list of the subprocess\<close>

text \<open>
  Claim C1: for a list of N configured names the argument list holds N separate entries
  \<^verbatim>\<open>-D <name>\<close>, in order, after \<^verbatim>\<open>-P\<close> and before the path. The program does not
  do that. With the two names DEBUG and TRACE and the path f.js, the list handed to
  \<^verbatim>\<open>execFile\<close> has three entries, not four: the second entry is the whole flag array,
  and each flag in it ends in a blank. Turned into strings, the second entry is the one
  argument \<^verbatim>\<open>-D DEBUG ,-D TRACE \<close>.
\<close>

theorem C1_two_names_one_entry:
  "cppPlugin (ArrayRef 0) test_world = Inr (test_plugin, test_world1) \<and>
   registered_callback test_plugin = Some (onLoad_callback 1) \<and>
   spawned (snd (onLoad_callback 1 \<lparr>path = ''f.js''\<rparr> quiet_run test_world1)) =
     [(''cpp'', [JStr ''-P'', JArr [JStr ''-D DEBUG '', JStr ''-D TRACE ''], JStr ''f.js''])] \<and>
   [JStr ''-P'', JArr [JStr ''-D DEBUG '', JStr ''-D TRACE ''], JStr ''f.js'']
     \<noteq> [JStr ''-P'', JStr ''-D DEBUG'', JStr ''-D TRACE'', JStr ''f.js''] \<and>
   map js_to_string [JStr ''-P'', JArr [JStr ''-D DEBUG '', JStr ''-D TRACE ''], JStr ''f.js'']
     = [''-P'', ''-D DEBUG ,-D TRACE '', ''f.js'']"
proof -
  have "spawned (snd (onLoad_callback 1 \<lparr>path = ''f.js''\<rparr> quiet_run test_world1)) =
     [(''cpp'', [JStr ''-P'', JArr [JStr ''-D DEBUG '', JStr ''-D TRACE ''], JStr ''f.js''])]"
    by (simp add: onLoad_callback_spawned options_def test_world1_def test_world_def)
  moreover have "map js_to_string [JStr ''-P'', JArr [JStr ''-D DEBUG '', JStr ''-D TRACE ''], JStr ''f.js'']
     = [''-P'', ''-D DEBUG ,-D TRACE '', ''f.js'']"
    by simp
  ultimately show ?thesis
    using test_construction test_callback by simp
qed

text \<open>
  Claim C3: when the configured list is empty (an empty array, or no argument at all),
  every load of the plugin hands the subprocess exactly \<^verbatim>\<open>-P\<close> and the path, whatever
  the caller writes to an array of its own in between.
\<close>

theorem C3_empty_list:
  assumes "configured_names arg w = []"
      and "cppPlugin arg w = Inr (p, w1)"
      and "registered_callback p = Some cb"
      and "a < brk w"
  shows "spawned (snd (run_events cb a env evs w1)) =
           spawned w1 @ map (\<lambda>pth. (''cpp'', [JStr ''-P'', JStr pth])) (loaded_paths evs)"
proof -
  from cppPlugin_Inr [OF assms(2)] assms(1) obtain b where b: "brk w \<le> b"
    and p: "p = \<lparr>plugin_name = ''cppPlugin'', plugin_setup = setup_routine b\<rparr>"
    and flags: "cells w1 b = []"
    by auto
  from assms(3) have cb: "cb = onLoad_callback b"
    by (simp add: p registered_callback_setup_routine)
  from assms(4) b have "a \<noteq> b" by simp
  from run_events_log [OF this, of env evs w1] show ?thesis
    by (simp add: cb flags options_def)
qed

theorem C3_empty_list_witness:
  "configured_names Undefined test_world = [] \<and>
   cppPlugin Undefined test_world =
     Inr (\<lparr>plugin_name = ''cppPlugin'', plugin_setup = setup_routine 2\<rparr>,
          test_world\<lparr>cells := (cells test_world)(1 := [], 2 := []), brk := 3\<rparr>) \<and>
   registered_callback \<lparr>plugin_name = ''cppPlugin'', plugin_setup = setup_routine 2\<rparr>
     = Some (onLoad_callback 2) \<and>
   (0::nat) < brk test_world \<and>
   spawned (snd (run_events (onLoad_callback 2) 0 (\<lambda>n. quiet_run)
       [Load ''f.js'', CallerWrites [''X''], Load ''g.js'']
       (test_world\<lparr>cells := (cells test_world)(1 := [], 2 := []), brk := 3\<rparr>))) =
     [(''cpp'', [JStr ''-P'', JStr ''f.js'']), (''cpp'', [JStr ''-P'', JStr ''g.js''])]"
proof -
  have c: "cppPlugin Undefined test_world =
     Inr (\<lparr>plugin_name = ''cppPlugin'', plugin_setup = setup_routine 2\<rparr>,
          test_world\<lparr>cells := (cells test_world)(1 := [], 2 := []), brk := 3\<rparr>)"
    unfolding cppPlugin_Undefined by (simp add: test_world_def numeral_2_eq_2 numeral_3_eq_3)
  have r: "registered_callback \<lparr>plugin_name = ''cppPlugin'', plugin_setup = setup_routine 2\<rparr>
             = Some (onLoad_callback 2)"
    by (rule registered_callback_setup_routine)
  have n: "configured_names Undefined test_world = []" by simp
  have a: "(0::nat) < brk test_world" by (simp add: test_world_def)
  from C3_empty_list [OF n c r a, of "\<lambda>n. quiet_run" "[Load ''f.js'', CallerWrites [''X''], Load ''g.js'']"]
  show ?thesis using c r a by (simp add: test_world_def)
qed

section \<open>Construction and setup, as claimed\<close>

text \<open>
  Claim C7: for every argument that is an array of strings, and for no argument at all,
  construction does not fail; it returns a descriptor with the fixed name
  \<^verbatim>\<open>cppPlugin\<close> and a setup routine (one that registers a callback); and it starts no
  subprocess.
\<close>

theorem C7_construction:
  assumes "arg \<noteq> Null"
  shows "\<exists>p w1. cppPlugin arg w = Inr (p, w1) \<and> plugin_name p = ''cppPlugin'' \<and>
           (\<exists>cb. registered_callback p = Some cb) \<and> spawned w1 = spawned w"
proof (cases arg)
  case Undefined
  show ?thesis
    unfolding Undefined cppPlugin_Undefined by (simp add: registered_callback_setup_routine)
next
  case Null
  with assms show ?thesis by simp
next
  case (ArrayRef a)
  show ?thesis
    unfolding ArrayRef cppPlugin_ArrayRef by (simp add: registered_callback_setup_routine)
qed

theorem C7_construction_witness:
  "ArrayRef 0 \<noteq> Null \<and>
   (\<exists>p w1. cppPlugin (ArrayRef 0) test_world = Inr (p, w1) \<and> plugin_name p = ''cppPlugin'' \<and>
           (\<exists>cb. registered_callback p = Some cb) \<and> spawned w1 = [])"
  using C7_construction [of "ArrayRef 0" test_world] by (simp add: test_world_def)

text \<open>
  Claim C8: on every registration object, the setup routine of a constructed plugin adds
  exactly one load registration, and its filter \<^verbatim>\<open>/.*/\<close> matches every path.
\<close>

theorem C8_setup_registers_match_all:
  assumes "cppPlugin arg w = Inr (p, w1)"
  shows "\<exists>b. onLoad_handlers (plugin_setup p bld) = onLoad_handlers bld @ [(Star Dot, onLoad_callback b)]
             \<and> (\<forall>pth. regex_test (Star Dot) pth)"
proof -
  from cppPlugin_Inr [OF assms] obtain b
    where "p = \<lparr>plugin_name = ''cppPlugin'', plugin_setup = setup_routine b\<rparr>"
    by auto
  then show ?thesis
    by (auto simp: setup_routine_def build_onLoad_def regex_test_Star)
qed

theorem C8_setup_registers_match_all_witness:
  "cppPlugin (ArrayRef 0) test_world = Inr (test_plugin, test_world1) \<and>
   (\<exists>b. onLoad_handlers (plugin_setup test_plugin empty_build)
           = onLoad_handlers empty_build @ [(Star Dot, onLoad_callback b)]) \<and>
   regex_test (Star Dot) ''src/a b.js''"
  using C8_setup_registers_match_all [OF test_construction, of empty_build] test_construction
  by auto

section \<open>The settlement of a load\<close>

text \<open>
  Claim C2: when the invocation of the subprocess fails, whatever the failure (a status
  other than zero, the executable not found), the load fails with that same failure and
  returns no result object.
\<close>

theorem C2_failure_propagates:
  assumes "ex ''cpp'' (options (cells w b) (path args)) = Inl err"
  shows "fst (onLoad_callback b args ex w) = Inl err \<and>
         (\<forall>obj. fst (onLoad_callback b args ex w) \<noteq> Inr obj)"
  using assms by (simp add: onLoad_callback_result)

theorem C2_failure_propagates_witness:
  "missing_run ''cpp'' (options (cells test_world1 1) (path \<lparr>path = ''f.js''\<rparr>)) = Inl (SpawnFailed ''ENOENT'')
   \<and> fst (onLoad_callback 1 \<lparr>path = ''f.js''\<rparr> missing_run test_world1) = Inl (SpawnFailed ''ENOENT'')"
  using C2_failure_propagates [of missing_run test_world1 1 "\<lparr>path = ''f.js''\<rparr>" "SpawnFailed ''ENOENT''"]
  by (simp add: missing_run_def)

text \<open>
  Claim C4: a load that completes returns the object whose \<^verbatim>\<open>contents\<close> is the
  standard output the subprocess wrote and whose \<^verbatim>\<open>loader\<close> is \<^verbatim>\<open>js\<close>, for
  every path, store and closure.
\<close>

theorem C4_result_shape:
  assumes "fst (onLoad_callback b args ex w) = Inr obj"
  shows "\<exists>out. ex ''cpp'' (options (cells w b) (path args)) = Inr out \<and>
           obj = [(''contents'', JStr (stdout out)), (''loader'', JStr ''js'')]"
  using assms by (simp add: onLoad_callback_result split: sum.splits)

theorem C4_result_shape_witness:
  "fst (onLoad_callback 1 \<lparr>path = ''f.js''\<rparr> quiet_run test_world1)
     = Inr [(''contents'', JStr ''x;''), (''loader'', JStr ''js'')]
   \<and> (\<exists>out. quiet_run ''cpp'' (options (cells test_world1 1) (path \<lparr>path = ''f.js''\<rparr>)) = Inr out \<and>
           [(''contents'', JStr ''x;''), (''loader'', JStr ''js'')]
             = [(''contents'', JStr (stdout out)), (''loader'', JStr ''js'')])"
proof -
  have h: "fst (onLoad_callback 1 \<lparr>path = ''f.js''\<rparr> quiet_run test_world1)
             = Inr [(''contents'', JStr ''x;''), (''loader'', JStr ''js'')]"
    by (simp add: onLoad_callback_result quiet_run_def)
  from C4_result_shape [OF h] h show ?thesis by simp
qed

text \<open>
  Claim C5 says that a load fails whenever the subprocess writes to its error stream,
  also when it exits with status zero. It does not: the callback never looks at the error
  stream. With the two names DEBUG and TRACE, an invocation whose promise resolves with
  a warning on the error stream gives a load that completes.
\<close>

theorem C5_counterexample:
  "cppPlugin (ArrayRef 0) test_world = Inr (test_plugin, test_world1) \<and>
   registered_callback test_plugin = Some (onLoad_callback 1) \<and>
   warning_run ''cpp'' (options (cells test_world1 1) ''f.js'')
     = Inr \<lparr>stdout = ''x;'', stderr = ''f.js:1:2: warning: w''\<rparr> \<and>
   stderr \<lparr>stdout = ''x;'', stderr = ''f.js:1:2: warning: w''\<rparr> \<noteq> [] \<and>
   fst (onLoad_callback 1 \<lparr>path = ''f.js''\<rparr> warning_run test_world1) =
     Inr [(''contents'', JStr ''x;''), (''loader'', JStr ''js'')]"
proof -
  have "fst (onLoad_callback 1 \<lparr>path = ''f.js''\<rparr> warning_run test_world1) =
     Inr [(''contents'', JStr ''x;''), (''loader'', JStr ''js'')]"
    by (simp add: onLoad_callback_result warning_run_def)
  then show ?thesis
    using test_construction test_callback by (simp add: warning_run_def)
qed

text \<open>
  Claim C5, amended: a load fails exactly when the promise of \<^verbatim>\<open>execFile\<close> is
  rejected, and then with that same failure; and a load completes, with the standard
  output as its contents, exactly when that promise resolves with that standard output,
  whatever text of the error stream the resolved value carries. The statement is about
  the promise and not about the exit status: a child that exits with status zero after
  flooding its error stream has its promise rejected, and that load fails like any other.
\<close>

theorem C5_fails_iff_invocation_fails:
  "((fst (onLoad_callback b args ex w) = Inl err)
      = (ex ''cpp'' (options (cells w b) (path args)) = Inl err))
   \<and> ((fst (onLoad_callback b args ex w) = Inr [(''contents'', JStr so), (''loader'', JStr ''js'')])
      = (\<exists>se. ex ''cpp'' (options (cells w b) (path args)) = Inr \<lparr>stdout = so, stderr = se\<rparr>))
   \<and> ((\<exists>obj. fst (onLoad_callback b args ex w) = Inr obj)
      = (\<exists>out. ex ''cpp'' (options (cells w b) (path args)) = Inr out))"
proof (cases "ex ''cpp'' (options (cells w b) (path args))")
  case (Inl e)
  then show ?thesis by (simp add: onLoad_callback_result)
next
  case (Inr out)
  have "(stdout out = so) = (\<exists>se. out = \<lparr>stdout = so, stderr = se\<rparr>)"
    by (cases out) auto
  with Inr show ?thesis by (simp add: onLoad_callback_result)
qed

text \<open>
  Claim C6 says that warning text on the error stream of a subprocess that exits with
  status zero is passed on to the host's diagnostics. It is not. For an invocation whose
  promise resolves with a warning on the error stream the load does complete, but the
  text goes nowhere: the result object has the two keys \<^verbatim>\<open>contents\<close> and
  \<^verbatim>\<open>loader\<close> and no \<^verbatim>\<open>warnings\<close>, and result and world are the same as for a
  subprocess that wrote no warning.
\<close>

theorem C6_counterexample:
  "warning_run ''cpp'' (options (cells test_world1 1) ''f.js'')
     = Inr \<lparr>stdout = ''x;'', stderr = ''f.js:1:2: warning: w''\<rparr> \<and>
   fst (onLoad_callback 1 \<lparr>path = ''f.js''\<rparr> warning_run test_world1) =
     Inr [(''contents'', JStr ''x;''), (''loader'', JStr ''js'')] \<and>
   map_of [(''contents'', JStr ''x;''), (''loader'', JStr ''js'')] ''warnings'' = None \<and>
   onLoad_callback 1 \<lparr>path = ''f.js''\<rparr> warning_run test_world1
     = onLoad_callback 1 \<lparr>path = ''f.js''\<rparr> quiet_run test_world1"
  by (simp add: onLoad_callback_def warning_run_def quiet_run_def)

text \<open>
  Claim C6, amended: when the subprocess emits warning text on its error stream and the
  promise of \<^verbatim>\<open>execFile\<close> resolves, the load does not fail, and the warning text is
  discarded: the result holds the standard output and the fixed loader only, and two
  resolved invocations with the same standard output give the same result and the same
  world, whatever their error streams held. Exit status zero alone is not the condition:
  a promise rejected for an error stream beyond the buffer fails the load, as every
  rejection does.
\<close>

theorem C6_warning_discarded:
  assumes "ex1 ''cpp'' (options (cells w b) (path args)) = Inr out1"
      and "ex2 ''cpp'' (options (cells w b) (path args)) = Inr out2"
      and "stdout out1 = stdout out2"
  shows "onLoad_callback b args ex1 w = onLoad_callback b args ex2 w \<and>
         fst (onLoad_callback b args ex1 w)
           = Inr [(''contents'', JStr (stdout out1)), (''loader'', JStr ''js'')]"
  using assms by (simp add: onLoad_callback_def)

theorem C6_warning_discarded_witness:
  "warning_run ''cpp'' (options (cells test_world1 1) (path \<lparr>path = ''f.js''\<rparr>))
     = Inr \<lparr>stdout = ''x;'', stderr = ''f.js:1:2: warning: w''\<rparr>
   \<and> quiet_run ''cpp'' (options (cells test_world1 1) (path \<lparr>path = ''f.js''\<rparr>))
     = Inr \<lparr>stdout = ''x;'', stderr = []\<rparr>
   \<and> stdout \<lparr>stdout = ''x;'', stderr = ''f.js:1:2: warning: w''\<rparr> = stdout \<lparr>stdout = ''x;'', stderr = []\<rparr>
   \<and> onLoad_callback 1 \<lparr>path = ''f.js''\<rparr> warning_run test_world1
     = onLoad_callback 1 \<lparr>path = ''f.js''\<rparr> quiet_run test_world1
   \<and> fst (onLoad_callback 1 \<lparr>path = ''f.js''\<rparr> warning_run test_world1)
     = Inr [(''contents'', JStr ''x;''), (''loader'', JStr ''js'')]"
proof -
  have h1: "warning_run ''cpp'' (options (cells test_world1 1) (path \<lparr>path = ''f.js''\<rparr>))
     = Inr \<lparr>stdout = ''x;'', stderr = ''f.js:1:2: warning: w''\<rparr>"
    by (simp add: warning_run_def)
  have h2: "quiet_run ''cpp'' (options (cells test_world1 1) (path \<lparr>path = ''f.js''\<rparr>))
     = Inr \<lparr>stdout = ''x;'', stderr = []\<rparr>"
    by (simp add: quiet_run_def)
  have h3: "stdout \<lparr>stdout = ''x;'', stderr = ''f.js:1:2: warning: w''\<rparr>
     = stdout \<lparr>stdout = ''x;'', stderr = []\<rparr>"
    by simp
  note c = C6_warning_discarded [of warning_run test_world1 1 "\<lparr>path = ''f.js''\<rparr>"
      "\<lparr>stdout = ''x;'', stderr = ''f.js:1:2: warning: w''\<rparr>" quiet_run
      "\<lparr>stdout = ''x;'', stderr = []\<rparr>", OF h1 h2 h3]
  have k1: "onLoad_callback 1 \<lparr>path = ''f.js''\<rparr> warning_run test_world1
          = onLoad_callback 1 \<lparr>path = ''f.js''\<rparr> quiet_run test_world1"
    by (rule c [THEN conjunct1])
  have k2: "fst (onLoad_callback 1 \<lparr>path = ''f.js''\<rparr> warning_run test_world1)
          = Inr [(''contents'', JStr ''x;''), (''loader'', JStr ''js'')]"
    using c [THEN conjunct2] by simp
  from h1 h2 h3 k1 k2 show ?thesis by (intro conjI)
qed

section \<open>The flags over the life of a plugin\<close>

text \<open>
  Claim C9: the flags are fixed at construction. In every run of load events and writes
  by the caller to its macro-name array, each load hands the subprocess the options built
  from the names the array held when the factory was called.
\<close>

theorem C9_flags_fixed_at_construction:
  assumes "a < brk w"
      and "cppPlugin (ArrayRef a) w = Inr (p, w1)"
      and "registered_callback p = Some cb"
  shows "spawned (snd (run_events cb a env evs w1)) =
           spawned w1 @ map (\<lambda>pth. (''cpp'', options (map predefine_flag (cells w a)) pth)) (loaded_paths evs)"
proof -
  from cppPlugin_Inr [OF assms(2)] obtain b where b: "brk w \<le> b"
    and p: "p = \<lparr>plugin_name = ''cppPlugin'', plugin_setup = setup_routine b\<rparr>"
    and flags: "cells w1 b = map predefine_flag (cells w a)"
    by auto
  from assms(3) have cb: "cb = onLoad_callback b"
    by (simp add: p registered_callback_setup_routine)
  from assms(1) b have "a \<noteq> b" by simp
  from run_events_log [OF this, of env evs w1] show ?thesis
    by (simp add: cb flags)
qed

theorem C9_flags_fixed_at_construction_witness:
  "(0::nat) < brk test_world \<and>
   cppPlugin (ArrayRef 0) test_world = Inr (test_plugin, test_world1) \<and>
   registered_callback test_plugin = Some (onLoad_callback 1) \<and>
   spawned (snd (run_events (onLoad_callback 1) 0 (\<lambda>n. quiet_run)
       [Load ''f.js'', CallerWrites [''OTHER''], Load ''g.js''] test_world1)) =
     [(''cpp'', [JStr ''-P'', JArr [JStr ''-D DEBUG '', JStr ''-D TRACE ''], JStr ''f.js'']),
      (''cpp'', [JStr ''-P'', JArr [JStr ''-D DEBUG '', JStr ''-D TRACE ''], JStr ''g.js''])]"
proof -
  have a: "(0::nat) < brk test_world" by (simp add: test_world_def)
  have s: "spawned test_world1 = []" "cells test_world 0 = [''DEBUG'', ''TRACE'']"
    by (simp_all add: test_world1_def test_world_def)
  from C9_flags_fixed_at_construction [OF a test_construction test_callback,
      of "\<lambda>n. quiet_run" "[Load ''f.js'', CallerWrites [''OTHER''], Load ''g.js'']"]
  show ?thesis
    using a test_construction test_callback by (simp add: s options_def predefine_flag_def)
qed

text \<open>
  Claim C10: a plugin made with no argument and a plugin made with an empty array
  behave alike: over every run of events, the same results and the same argument lists.
\<close>

theorem C10_default_is_empty_list:
  assumes "cells w' a' = []"
      and "cppPlugin Undefined w = Inr (p1, w1)" and "registered_callback p1 = Some cb1"
      and "cppPlugin (ArrayRef a') w' = Inr (p2, w2)" and "registered_callback p2 = Some cb2"
      and "a1 < brk w" and "a2 < brk w'"
  shows "fst (run_events cb1 a1 env evs w1) = fst (run_events cb2 a2 env evs w2) \<and>
         (\<exists>log. spawned (snd (run_events cb1 a1 env evs w1)) = spawned w1 @ log \<and>
                spawned (snd (run_events cb2 a2 env evs w2)) = spawned w2 @ log)"
proof -
  from cppPlugin_Inr [OF assms(2)] obtain b1 where b1: "brk w \<le> b1"
    and p1: "p1 = \<lparr>plugin_name = ''cppPlugin'', plugin_setup = setup_routine b1\<rparr>"
    and f1: "cells w1 b1 = []"
    by auto
  from cppPlugin_Inr [OF assms(4)] assms(1) obtain b2 where b2: "brk w' \<le> b2"
    and p2: "p2 = \<lparr>plugin_name = ''cppPlugin'', plugin_setup = setup_routine b2\<rparr>"
    and f2: "cells w2 b2 = []"
    by auto
  from assms(3) have cb1: "cb1 = onLoad_callback b1"
    by (simp add: p1 registered_callback_setup_routine)
  from assms(5) have cb2: "cb2 = onLoad_callback b2"
    by (simp add: p2 registered_callback_setup_routine)
  from assms(6) b1 have n1: "a1 \<noteq> b1" by simp
  from assms(7) b2 have n2: "a2 \<noteq> b2" by simp
  have "cells w1 b1 = cells w2 b2" by (simp add: f1 f2)
  from run_events_results_agree [OF n1 n2 this]
  have res: "fst (run_events cb1 a1 env evs w1) = fst (run_events cb2 a2 env evs w2)"
    by (simp add: cb1 cb2)
  have "spawned (snd (run_events cb1 a1 env evs w1)) =
          spawned w1 @ map (\<lambda>pth. (''cpp'', options [] pth)) (loaded_paths evs)"
    using run_events_log [OF n1, of env evs w1] by (simp add: cb1 f1)
  moreover have "spawned (snd (run_events cb2 a2 env evs w2)) =
          spawned w2 @ map (\<lambda>pth. (''cpp'', options [] pth)) (loaded_paths evs)"
    using run_events_log [OF n2, of env evs w2] by (simp add: cb2 f2)
  ultimately show ?thesis using res by blast
qed

theorem C10_default_is_empty_list_witness:
  "cells empty_list_world 0 = [] \<and>
   cppPlugin Undefined test_world =
     Inr (\<lparr>plugin_name = ''cppPlugin'', plugin_setup = setup_routine 2\<rparr>,
          test_world\<lparr>cells := (cells test_world)(1 := [], 2 := []), brk := 3\<rparr>) \<and>
   registered_callback \<lparr>plugin_name = ''cppPlugin'', plugin_setup = setup_routine 2\<rparr>
     = Some (onLoad_callback 2) \<and>
   cppPlugin (ArrayRef 0) empty_list_world =
     Inr (\<lparr>plugin_name = ''cppPlugin'', plugin_setup = setup_routine 1\<rparr>,
          empty_list_world\<lparr>cells := (cells empty_list_world)(1 := []), brk := 2\<rparr>) \<and>
   registered_callback \<lparr>plugin_name = ''cppPlugin'', plugin_setup = setup_routine 1\<rparr>
     = Some (onLoad_callback 1) \<and>
   (0::nat) < brk test_world \<and> (0::nat) < brk empty_list_world \<and>
   fst (run_events (onLoad_callback 2) 0 (\<lambda>n. quiet_run) [Load ''f.js'']
          (test_world\<lparr>cells := (cells test_world)(1 := [], 2 := []), brk := 3\<rparr>))
     = fst (run_events (onLoad_callback 1) 0 (\<lambda>n. quiet_run) [Load ''f.js'']
          (empty_list_world\<lparr>cells := (cells empty_list_world)(1 := []), brk := 2\<rparr>))"
proof -
  have e: "cells empty_list_world 0 = []" by (simp add: empty_list_world_def)
  have c1: "cppPlugin Undefined test_world =
     Inr (\<lparr>plugin_name = ''cppPlugin'', plugin_setup = setup_routine 2\<rparr>,
          test_world\<lparr>cells := (cells test_world)(1 := [], 2 := []), brk := 3\<rparr>)"
    unfolding cppPlugin_Undefined by (simp add: test_world_def numeral_2_eq_2 numeral_3_eq_3)
  have r1: "registered_callback \<lparr>plugin_name = ''cppPlugin'', plugin_setup = setup_routine 2\<rparr>
             = Some (onLoad_callback 2)"
    by (rule registered_callback_setup_routine)
  have c2: "cppPlugin (ArrayRef 0) empty_list_world =
     Inr (\<lparr>plugin_name = ''cppPlugin'', plugin_setup = setup_routine 1\<rparr>,
          empty_list_world\<lparr>cells := (cells empty_list_world)(1 := []), brk := 2\<rparr>)"
    unfolding cppPlugin_ArrayRef by (simp add: empty_list_world_def numeral_2_eq_2)
  have r2: "registered_callback \<lparr>plugin_name = ''cppPlugin'', plugin_setup = setup_routine 1\<rparr>
             = Some (onLoad_callback 1)"
    by (rule registered_callback_setup_routine)
  have a1: "(0::nat) < brk test_world" by (simp add: test_world_def)
  have a2: "(0::nat) < brk empty_list_world" by (simp add: empty_list_world_def)
  from C10_default_is_empty_list [OF e c1 r1 c2 r2 a1 a2, of "\<lambda>n. quiet_run" "[Load ''f.js'']"]
  have "fst (run_events (onLoad_callback 2) 0 (\<lambda>n. quiet_run) [Load ''f.js'']
          (test_world\<lparr>cells := (cells test_world)(1 := [], 2 := []), brk := 3\<rparr>))
     = fst (run_events (onLoad_callback 1) 0 (\<lambda>n. quiet_run) [Load ''f.js'']
          (empty_list_world\<lparr>cells := (cells empty_list_world)(1 := []), brk := 2\<rparr>))"
    by (rule conjunct1)
  with e c1 r1 c2 r2 a1 a2 show ?thesis by (intro conjI)
qed

end
